theory Spec2Isabelle
  imports Main "HOL-Library.Word"
begin

section \<open>JavaScript values as the wrapper sees them\<close>

text \<open>
  The wrapper of \<^verbatim>\<open>src/index.js\<close> receives an arbitrary thrown value. A JavaScript
  string is a sequence of UTF-16 code units, so it is a list of naturals here; \<open>js\<close>
  embeds an ASCII/Latin-1 literal. A finite number is a sign (\<open>True\<close> for negative) and
  a magnitude of 53 bits: these are the safe integers, which a double holds exactly and
  which are written in plain decimal; the other doubles are outside the model. The
  non-finite numbers are \<^verbatim>\<open>NaN\<close> and the two infinities, \<open>NInf True\<close> being the negative
  one. A bigint is an unbounded integer.
  Objects live in a heap and are referred to by address, so that an object can contain
  itself, as \<^verbatim>\<open>error.self = error\<close> does.
\<close>

type_synonym jsstring = "nat list"

definition js :: "string \<Rightarrow> jsstring" where
  "js s = map of_char s"

type_synonym addr = nat

datatype jsnum = NFin bool "53 word" | NNaN | NInf bool

datatype jsval =
    VUndefined
  | VNull
  | VBool bool
  | VNum jsnum
  | VBigInt int
  | VStr jsstring
  | VSym nat
  | VObj addr

text \<open>
  What is thrown: a value of the program, or one of the errors the platform itself raises
  (a fresh \<^verbatim>\<open>TypeError\<close> or \<^verbatim>\<open>RangeError\<close> object).
\<close>

datatype thrown = Thrown jsval | TypeError | RangeError

text \<open>
  A property slot is a data property or an accessor. Reading an accessor runs its getter,
  which returns a value or throws; an accessor without a getter reads as
  \<^verbatim>\<open>undefined\<close>. Getters and setters are taken to be free of side effects. A
  property also says whether it is enumerable and, for a data property, whether it is
  writable.
\<close>

datatype slot = Data jsval | Getter jsval | ThrowingGetter thrown | NoGetter

datatype pkey = StrKey jsstring | SymKey nat

record property =
  pname :: pkey
  enumerable :: bool
  writable :: bool
  slot :: slot

text \<open>
  An object: whether it is callable, its own properties in the order of
  \<^verbatim>\<open>[[OwnPropertyKeys]]\<close>, the properties its prototype chain provides (nearest
  first; the properties of \<^verbatim>\<open>Object.prototype\<close> itself are not listed), whether that
  chain ends in \<^verbatim>\<open>Object.prototype\<close> (or in \<^verbatim>\<open>null\<close> before it), and what
  converting the object to a string yields (the outcome of its
  \<^verbatim>\<open>toString\<close>/\<^verbatim>\<open>valueOf\<close> methods). Arrays, proxies and objects with a
  \<^verbatim>\<open>toJSON\<close> method are outside the model; the built-in prototypes are pristine.
\<close>

record obj =
  callable :: bool
  own :: "property list"
  inherited :: "property list"
  has_object_prototype :: bool
  string_conversion :: "thrown + jsstring"

type_synonym heap = "obj list"

definition empty_obj :: obj where
  "empty_obj = \<lparr>callable = False, own = [], inherited = [], has_object_prototype = True,
     string_conversion = Inr (js ''[object Object]'')\<rparr>"

definition h_get :: "heap \<Rightarrow> addr \<Rightarrow> obj" where
  "h_get h a = (if a < length h then h ! a else empty_obj)"

subsection \<open>typeof, truthiness, property reads\<close>

datatype jstype =
  TUndefined | TObject | TBoolean | TNumber | TBigInt | TString | TSymbol | TFunction

fun typeof :: "heap \<Rightarrow> jsval \<Rightarrow> jstype" where
  "typeof h VUndefined = TUndefined"
| "typeof h VNull = TObject"
| "typeof h (VBool b) = TBoolean"
| "typeof h (VNum n) = TNumber"
| "typeof h (VBigInt i) = TBigInt"
| "typeof h (VStr s) = TString"
| "typeof h (VSym n) = TSymbol"
| "typeof h (VObj a) = (if callable (h_get h a) then TFunction else TObject)"

text \<open>\<^verbatim>\<open>ToBoolean\<close>, which decides \<^verbatim>\<open>error.message || "Unknown error"\<close>.\<close>

fun truthy :: "jsval \<Rightarrow> bool" where
  "truthy VUndefined = False"
| "truthy VNull = False"
| "truthy (VBool b) = b"
| "truthy (VNum (NFin negative w)) = (w \<noteq> 0)"
| "truthy (VNum NNaN) = False"
| "truthy (VNum (NInf b)) = True"
| "truthy (VBigInt i) = (i \<noteq> 0)"
| "truthy (VStr s) = (s \<noteq> [])"
| "truthy (VSym n) = True"
| "truthy (VObj a) = True"

fun read_slot :: "slot \<Rightarrow> thrown + jsval" where
  "read_slot (Data v) = Inr v"
| "read_slot (Getter v) = Inr v"
| "read_slot (ThrowingGetter e) = Inl e"
| "read_slot NoGetter = Inr VUndefined"

fun find_property :: "property list \<Rightarrow> pkey \<Rightarrow> property option" where
  "find_property [] k = None"
| "find_property (p # ps) k = (if pname p = k then Some p else find_property ps k)"

text \<open>
  \<^verbatim>\<open>value[name]\<close>: reading a property of \<^verbatim>\<open>undefined\<close> or \<^verbatim>\<open>null\<close> throws
  a \<^verbatim>\<open>TypeError\<close>; the other primitives are boxed and their (pristine) prototypes
  carry no property read by this program; an object is searched in its own properties
  and then along its prototype chain.
\<close>

fun get_property :: "heap \<Rightarrow> jsval \<Rightarrow> jsstring \<Rightarrow> thrown + jsval" where
  "get_property h VUndefined k = Inl TypeError"
| "get_property h VNull k = Inl TypeError"
| "get_property h (VObj a) k =
     (case find_property (own (h_get h a)) (StrKey k) of
        Some p \<Rightarrow> read_slot (slot p)
      | None \<Rightarrow>
          (case find_property (inherited (h_get h a)) (StrKey k) of
             Some p \<Rightarrow> read_slot (slot p)
           | None \<Rightarrow> Inr VUndefined))"
| "get_property h v k = Inr VUndefined"

fun string_keys :: "property list \<Rightarrow> jsstring list" where
  "string_keys [] = []"
| "string_keys (p # ps) =
     (case pname p of StrKey k \<Rightarrow> k # string_keys ps | SymKey n \<Rightarrow> string_keys ps)"

text \<open>
  \<^verbatim>\<open>Object.getOwnPropertyNames\<close>: the string-keyed own properties, enumerable or not.
  It throws on \<^verbatim>\<open>undefined\<close> and \<^verbatim>\<open>null\<close>; a boxed number, boolean, bigint or
  symbol has no own property; a string has its indices and \<^verbatim>\<open>length\<close>, but the
  program never asks for them.
\<close>

fun getOwnPropertyNames :: "heap \<Rightarrow> jsval \<Rightarrow> thrown + jsstring list" where
  "getOwnPropertyNames h VUndefined = Inl TypeError"
| "getOwnPropertyNames h VNull = Inl TypeError"
| "getOwnPropertyNames h (VObj a) = Inr (string_keys (own (h_get h a)))"
| "getOwnPropertyNames h v = Inr []"

section \<open>JSON serialization\<close>

text \<open>
  \<^verbatim>\<open>JSON.stringify\<close> is split in two: \<open>ser_value\<close> and \<open>ser_props\<close> compute the
  JSON document (or the exception), \<open>json_text\<close> writes it out. The second argument is
  the stack of objects being serialized: meeting one of them again is the circular
  structure \<^verbatim>\<open>TypeError\<close>. A bigint throws a \<^verbatim>\<open>TypeError\<close>; \<^verbatim>\<open>undefined\<close>,
  symbols and functions have no JSON form and their property is left out; a non-finite
  number is written \<^verbatim>\<open>null\<close>. Only enumerable string-keyed own properties of a nested
  object are visited, each read through its getter. An address outside the heap stands
  for an object without properties.
\<close>

datatype json =
    JNull
  | JBool bool
  | JNumber bool "53 word"
  | JString jsstring
  | JObject "(jsstring \<times> json) list"

function ser_value :: "heap \<Rightarrow> addr list \<Rightarrow> jsval \<Rightarrow> thrown + json option"
  and ser_props :: "heap \<Rightarrow> addr list \<Rightarrow> property list \<Rightarrow> thrown + (jsstring \<times> json) list"
where
  "ser_value h st v =
     (case v of
        VUndefined \<Rightarrow> Inr None
      | VNull \<Rightarrow> Inr (Some JNull)
      | VBool b \<Rightarrow> Inr (Some (JBool b))
      | VNum n \<Rightarrow> (case n of NFin negative w \<Rightarrow> Inr (Some (JNumber negative w)) | NNaN \<Rightarrow> Inr (Some JNull)
                   | NInf b \<Rightarrow> Inr (Some JNull))
      | VBigInt i \<Rightarrow> Inl TypeError
      | VStr s \<Rightarrow> Inr (Some (JString s))
      | VSym n \<Rightarrow> Inr None
      | VObj a \<Rightarrow>
          if callable (h_get h a) then Inr None
          else if a \<in> set st then Inl TypeError
          else if a < length h then
            (case ser_props h (a # st) (own (h ! a)) of
               Inl e \<Rightarrow> Inl e
             | Inr kvs \<Rightarrow> Inr (Some (JObject kvs)))
          else Inr (Some (JObject [])))"
| "ser_props h st [] = Inr []"
| "ser_props h st (p # ps) =
     (case pname p of
        SymKey n \<Rightarrow> ser_props h st ps
      | StrKey k \<Rightarrow>
          if \<not> enumerable p then ser_props h st ps
          else
            (case read_slot (slot p) of
               Inl e \<Rightarrow> Inl e
             | Inr v \<Rightarrow>
                 (case ser_value h st v of
                    Inl e \<Rightarrow> Inl e
                  | Inr None \<Rightarrow> ser_props h st ps
                  | Inr (Some j) \<Rightarrow>
                      (case ser_props h st ps of
                         Inl e \<Rightarrow> Inl e
                       | Inr kvs \<Rightarrow> Inr ((k, j) # kvs)))))"
  by pat_completeness auto

definition unvisited :: "heap \<Rightarrow> addr list \<Rightarrow> nat" where
  "unvisited h st = card ({..<length h} - set st)"

lemma unvisited_push: "a < length h \<Longrightarrow> a \<notin> set st \<Longrightarrow> unvisited h (a # st) < unvisited h st"
  unfolding unvisited_def
  by (intro psubset_card_mono) auto

termination ser_value
  by (relation "measures
        [\<lambda>x. case x of Inl (h, st, v) \<Rightarrow> unvisited h st | Inr (h, st, ps) \<Rightarrow> unvisited h st,
         \<lambda>x. case x of Inl (h, st, v) \<Rightarrow> 0 | Inr (h, st, ps) \<Rightarrow> Suc (length ps)]")
     (auto simp: unvisited_push)

subsection \<open>Writing a JSON document as text\<close>

fun digit_unit :: "nat \<Rightarrow> nat" where
  "digit_unit d = (if d < 10 then 48 + d else 87 + d)"

fun dec_text :: "nat \<Rightarrow> jsstring" where
  "dec_text n = (if n < 10 then [digit_unit n] else dec_text (n div 10) @ [digit_unit (n mod 10)])"

definition int_text :: "int \<Rightarrow> jsstring" where
  "int_text i = (if i < 0 then js ''-'' @ dec_text (nat (- i)) else dec_text (nat i))"

text \<open>
  The text of a safe integer, for \<^verbatim>\<open>String\<close> and for \<^verbatim>\<open>JSON.stringify\<close> alike; the
  negative zero is written \<^verbatim>\<open>0\<close>.
\<close>

definition number_text :: "bool \<Rightarrow> 53 word \<Rightarrow> jsstring" where
  "number_text negative w =
     (if negative \<and> w \<noteq> 0 then js ''-'' @ dec_text (unat w) else dec_text (unat w))"

text \<open>
  The escape of a code unit by its four lower-case hexadecimal digits: a backslash
  (code unit 92), the letter u (117) and the digits. In \<open>escape_unit\<close> the two-character
  escapes are written by their code units as well: 98, 116, 110, 102 and 114 are the
  letters b, t, n, f and r; 34 is the double quote.
\<close>

definition unicode_escape :: "nat \<Rightarrow> jsstring" where
  "unicode_escape c =
     [92, 117] @ [digit_unit (c div 4096 mod 16), digit_unit (c div 256 mod 16),
                   digit_unit (c div 16 mod 16), digit_unit (c mod 16)]"

definition is_high_surrogate :: "nat \<Rightarrow> bool" where
  "is_high_surrogate c = (55296 \<le> c \<and> c \<le> 56319)"

definition is_low_surrogate :: "nat \<Rightarrow> bool" where
  "is_low_surrogate c = (56320 \<le> c \<and> c \<le> 57343)"

definition escape_unit :: "nat \<Rightarrow> jsstring" where
  "escape_unit c =
     (if c = 8 then [92, 98]
      else if c = 9 then [92, 116]
      else if c = 10 then [92, 110]
      else if c = 12 then [92, 102]
      else if c = 13 then [92, 114]
      else if c = 34 then [92, 34]
      else if c = 92 then [92, 92]
      else if c < 32 then unicode_escape c
      else [c])"

text \<open>
  \<^verbatim>\<open>QuoteJSONString\<close> without the enclosing quotes: a surrogate pair is copied, a lone
  surrogate is escaped.
\<close>

fun quote_units :: "jsstring \<Rightarrow> jsstring" where
  "quote_units [] = []"
| "quote_units [c] =
     (if is_high_surrogate c \<or> is_low_surrogate c then unicode_escape c else escape_unit c)"
| "quote_units (c # d # ds) =
     (if is_high_surrogate c \<and> is_low_surrogate d then c # d # quote_units ds
      else if is_high_surrogate c \<or> is_low_surrogate c then unicode_escape c @ quote_units (d # ds)
      else escape_unit c @ quote_units (d # ds))"

definition quote :: "jsstring \<Rightarrow> jsstring" where
  "quote s = [34] @ quote_units s @ [34]"

fun json_text :: "json \<Rightarrow> jsstring"
  and json_members :: "(jsstring \<times> json) list \<Rightarrow> jsstring"
where
  "json_text JNull = js ''null''"
| "json_text (JBool b) = (if b then js ''true'' else js ''false'')"
| "json_text (JNumber negative w) = number_text negative w"
| "json_text (JString s) = quote s"
| "json_text (JObject ms) = js ''{'' @ json_members ms @ js ''}''"
| "json_members [] = []"
| "json_members [(k, v)] = quote k @ js '':'' @ json_text v"
| "json_members ((k, v) # m # ms) =
     quote k @ js '':'' @ json_text v @ js '','' @ json_members (m # ms)"

subsection \<open>Reading a string literal back\<close>

text \<open>
  The part of \<^verbatim>\<open>JSON.parse\<close> that reads a string literal: between the quotes, a
  backslash introduces a two-character escape or \<^verbatim>\<open>u\<close> and four hexadecimal digits;
  a bare quote or control character is an error; every other code unit stands for
  itself.
\<close>

definition hex_value :: "nat \<Rightarrow> nat option" where
  "hex_value c =
     (if 48 \<le> c \<and> c \<le> 57 then Some (c - 48)
      else if 97 \<le> c \<and> c \<le> 102 then Some (c - 87)
      else if 65 \<le> c \<and> c \<le> 70 then Some (c - 55)
      else None)"

fun hex4 :: "jsstring \<Rightarrow> nat option" where
  "hex4 [a, b, x, y] =
     (case hex_value a of None \<Rightarrow> None | Some p \<Rightarrow>
      case hex_value b of None \<Rightarrow> None | Some q \<Rightarrow>
      case hex_value x of None \<Rightarrow> None | Some u \<Rightarrow>
      case hex_value y of None \<Rightarrow> None | Some w \<Rightarrow> Some (4096 * p + 256 * q + 16 * u + w))"
| "hex4 other = None"

definition simple_escape :: "nat \<Rightarrow> nat option" where
  "simple_escape e =
     (if e = 98 then Some 8 else if e = 116 then Some 9 else if e = 110 then Some 10
      else if e = 102 then Some 12 else if e = 114 then Some 13
      else if e = 34 \<or> e = 92 \<or> e = 47 then Some e else None)"

function unquote_units :: "jsstring \<Rightarrow> jsstring option" where
  "unquote_units [] = Some []"
| "unquote_units (c # cs) =
     (if c = 92 then
        (case cs of
           [] \<Rightarrow> None
         | e # r \<Rightarrow>
             if e = 117 then
               (case hex4 (take 4 r) of
                  None \<Rightarrow> None
                | Some n \<Rightarrow> map_option ((#) n) (unquote_units (drop 4 r)))
             else
               (case simple_escape e of
                  None \<Rightarrow> None
                | Some d \<Rightarrow> map_option ((#) d) (unquote_units r)))
      else if c = 34 \<or> c < 32 then None
      else map_option ((#) c) (unquote_units cs))"
  by pat_completeness auto
termination
  by (relation "measure length") auto

definition read_string_literal :: "jsstring \<Rightarrow> jsstring option" where
  "read_string_literal q =
     (case q of
        [] \<Rightarrow> None
      | c # cs \<Rightarrow> if c = 34 \<and> cs \<noteq> [] \<and> last cs = 34 then unquote_units (butlast cs) else None)"

section \<open>The Response constructor\<close>

text \<open>
  \<^verbatim>\<open>new Response(body, {status, statusText, headers})\<close> as the Fetch standard defines
  it. The \<^verbatim>\<open>statusText\<close> member is a \<^verbatim>\<open>ByteString\<close>: the value is converted to
  a string (a symbol throws a \<^verbatim>\<open>TypeError\<close>, an object answers with its own
  conversion; the handler never passes \<^verbatim>\<open>undefined\<close>, which would count as an absent
  member) and every code unit must be at most 255. The constructor then throws a
  \<^verbatim>\<open>RangeError\<close> unless the status is between 200 and 599, and a \<^verbatim>\<open>TypeError\<close>
  unless the status text is a reason phrase: tabs, spaces, visible ASCII and the bytes
  from 128 to 255. Header names are compared without regard to ASCII case; a string
  body brings \<^verbatim>\<open>text/plain;charset=UTF-8\<close> only when no content type was given.
\<close>

record response =
  status :: nat
  statusText :: jsstring
  headers :: "(jsstring \<times> jsstring) list"
  body :: "jsstring option"

fun to_string :: "heap \<Rightarrow> jsval \<Rightarrow> thrown + jsstring" where
  "to_string h VUndefined = Inr (js ''undefined'')"
| "to_string h VNull = Inr (js ''null'')"
| "to_string h (VBool b) = Inr (if b then js ''true'' else js ''false'')"
| "to_string h (VNum (NFin negative w)) = Inr (number_text negative w)"
| "to_string h (VNum NNaN) = Inr (js ''NaN'')"
| "to_string h (VNum (NInf b)) = Inr (if b then js ''-Infinity'' else js ''Infinity'')"
| "to_string h (VBigInt i) = Inr (int_text i)"
| "to_string h (VStr s) = Inr s"
| "to_string h (VSym n) = Inl TypeError"
| "to_string h (VObj a) = string_conversion (h_get h a)"

definition to_byte_string :: "heap \<Rightarrow> jsval \<Rightarrow> thrown + jsstring" where
  "to_byte_string h v =
     (case to_string h v of
        Inl e \<Rightarrow> Inl e
      | Inr s \<Rightarrow> if list_all (\<lambda>c. c \<le> 255) s then Inr s else Inl TypeError)"

definition reason_phrase_unit :: "nat \<Rightarrow> bool" where
  "reason_phrase_unit c = (c = 9 \<or> (32 \<le> c \<and> c \<le> 126) \<or> (128 \<le> c \<and> c \<le> 255))"

definition is_reason_phrase :: "jsstring \<Rightarrow> bool" where
  "is_reason_phrase s = list_all reason_phrase_unit s"

definition ascii_lower :: "jsstring \<Rightarrow> jsstring" where
  "ascii_lower s = map (\<lambda>c. if 65 \<le> c \<and> c \<le> 90 then c + 32 else c) s"

definition headers_get :: "(jsstring \<times> jsstring) list \<Rightarrow> jsstring \<Rightarrow> jsstring option" where
  "headers_get hs name = map_of (map (\<lambda>(k, v). (ascii_lower k, v)) hs) (ascii_lower name)"

definition Response_new ::
  "heap \<Rightarrow> jsstring option \<Rightarrow> nat \<Rightarrow> jsval \<Rightarrow> (jsstring \<times> jsstring) list \<Rightarrow> thrown + response"
where
  "Response_new h b st stext hs =
     (case to_byte_string h stext of
        Inl e \<Rightarrow> Inl e
      | Inr t \<Rightarrow>
          if \<not> (200 \<le> st \<and> st \<le> 599) then Inl RangeError
          else if \<not> is_reason_phrase t then Inl TypeError
          else Inr \<lparr>status = st, statusText = t,
                 headers =
                   (if b \<noteq> None \<and> headers_get hs (js ''content-type'') = None
                    then hs @ [(js ''content-type'', js ''text/plain;charset=UTF-8'')]
                    else hs),
                 body = b\<rparr>)"

section \<open>The wrapper: \<^verbatim>\<open>createSafeFetch\<close>\<close>

definition ERROR_STATUS :: nat where
  "ERROR_STATUS = 10001"

text \<open>
  \<^verbatim>\<open>typeof error === "string" ? error : error.message || "Unknown error"\<close>. The read
  of \<^verbatim>\<open>error.message\<close> is not inside any \<^verbatim>\<open>try\<close>.
\<close>

definition errorMessage :: "heap \<Rightarrow> jsval \<Rightarrow> thrown + jsval" where
  "errorMessage h error =
     (if typeof h error = TString then Inr error
      else
        (case get_property h error (js ''message'') of
           Inl e \<Rightarrow> Inl e
         | Inr m \<Rightarrow> Inr (if truthy m then m else VStr (js ''Unknown error''))))"

text \<open>
  \<^verbatim>\<open>errorObject[name] = value\<close> in strict code, on an object that starts as the literal
  \<^verbatim>\<open>{}\<close>. The state of that object is its prototype and its own properties, all of
  them writable, enumerable data properties. An own property keeps its place and takes
  the new value. Otherwise the assignment walks the prototype chain to the first property
  of that name:
  \<^item> a writable data property, or none at all: a new own property goes last;
  \<^item> a data property that is not writable, or an accessor: no property is created (the
    assignment throws a \<^verbatim>\<open>TypeError\<close>, or the setter runs), and the loop's \<^verbatim>\<open>catch\<close>
    swallows the exception;
  \<^item> the accessor \<^verbatim>\<open>__proto__\<close> of \<^verbatim>\<open>Object.prototype\<close>: its setter makes an object
    value, or \<^verbatim>\<open>null\<close>, the new prototype and ignores any other value.
  All other properties of \<^verbatim>\<open>Object.prototype\<close> are writable data properties.
\<close>

type_synonym record_object = "(jsstring \<times> jsval) list"

datatype record_prototype = ObjectPrototype | NullPrototype | HeapPrototype addr

type_synonym record_state = "record_prototype \<times> record_object"

datatype set_target = Creates | Refused | ProtoSetter

definition inherited_target :: "heap \<Rightarrow> record_prototype \<Rightarrow> jsstring \<Rightarrow> set_target" where
  "inherited_target h pr name =
     (case pr of
        ObjectPrototype \<Rightarrow> if name = js ''__proto__'' then ProtoSetter else Creates
      | NullPrototype \<Rightarrow> Creates
      | HeapPrototype a \<Rightarrow>
          (case find_property (own (h_get h a) @ inherited (h_get h a)) (StrKey name) of
             Some p \<Rightarrow>
               (case slot p of
                  Data x \<Rightarrow> if writable p then Creates else Refused
                | other \<Rightarrow> Refused)
           | None \<Rightarrow>
               if has_object_prototype (h_get h a) \<and> name = js ''__proto__'' then ProtoSetter
               else Creates))"

definition assign_property :: "heap \<Rightarrow> record_state \<Rightarrow> jsstring \<Rightarrow> jsval \<Rightarrow> record_state" where
  "assign_property h st name v =
     (case st of (pr, ro) \<Rightarrow>
        if name \<in> fst ` set ro
        then (pr, map (\<lambda>(k, x). if k = name then (k, v) else (k, x)) ro)
        else
          (case inherited_target h pr name of
             Creates \<Rightarrow> (pr, ro @ [(name, v)])
           | Refused \<Rightarrow> (pr, ro)
           | ProtoSetter \<Rightarrow>
               (case v of
                  VObj a \<Rightarrow> (HeapPrototype a, ro)
                | VNull \<Rightarrow> (NullPrototype, ro)
                | other \<Rightarrow> (pr, ro))))"

text \<open>
  The loop \<^verbatim>\<open>for (const name of propertyNames)\<close>: a read that throws is skipped by
  the \<^verbatim>\<open>catch\<close>, a function or symbol value is skipped by the test, and an assignment
  that throws is skipped by the \<^verbatim>\<open>catch\<close> as well.
\<close>

fun collect_properties :: "heap \<Rightarrow> jsval \<Rightarrow> jsstring list \<Rightarrow> record_state \<Rightarrow> record_state" where
  "collect_properties h error [] st = st"
| "collect_properties h error (name # names) st =
     (case get_property h error name of
        Inl e \<Rightarrow> collect_properties h error names st
      | Inr v \<Rightarrow>
          if typeof h v \<noteq> TFunction \<and> typeof h v \<noteq> TSymbol
          then collect_properties h error names (assign_property h st name v)
          else collect_properties h error names st)"

text \<open>
  The record after the loop: its own properties. The prototype it may have acquired
  does not show in the serialization (a \<^verbatim>\<open>toJSON\<close> there is outside the model, as for
  every object).
\<close>

definition errorObject :: "heap \<Rightarrow> jsval \<Rightarrow> thrown + record_object" where
  "errorObject h error =
     (if typeof h error = TString then Inr [(js ''message'', error)]
      else
        (case getOwnPropertyNames h error of
           Inl e \<Rightarrow> Inl e
         | Inr propertyNames \<Rightarrow>
             Inr (snd (collect_properties h error propertyNames (ObjectPrototype, [])))))"

text \<open>
  \<^verbatim>\<open>JSON.stringify\<close> of an object built by the handler: all its properties are
  enumerable data properties, and no value can refer back to it.
\<close>

definition record_properties :: "record_object \<Rightarrow> property list" where
  "record_properties ro =
     map (\<lambda>(k, v). \<lparr>pname = StrKey k, enumerable = True, writable = True, slot = Data v\<rparr>) ro"

definition JSON_stringify :: "heap \<Rightarrow> record_object \<Rightarrow> thrown + jsstring" where
  "JSON_stringify h ro =
     (case ser_props h [] (record_properties ro) of
        Inl e \<Rightarrow> Inl e
      | Inr kvs \<Rightarrow> Inr (json_text (JObject kvs)))"

text \<open>The \<^verbatim>\<open>try\<close>/\<^verbatim>\<open>catch\<close> around the serialization; the fallback is outside a \<^verbatim>\<open>try\<close>.\<close>

definition serialize_body :: "heap \<Rightarrow> record_object \<Rightarrow> jsval \<Rightarrow> thrown + jsstring" where
  "serialize_body h ro msg =
     (case JSON_stringify h ro of
        Inr text \<Rightarrow> Inr text
      | Inl e \<Rightarrow> JSON_stringify h [(js ''message'', msg)])"

text \<open>
  The callback given to \<^verbatim>\<open>.catch\<close>. \<^verbatim>\<open>Object.defineProperty\<close> then replaces the
  status 599 by \<open>ERROR_STATUS\<close>.
\<close>

definition catch_handler :: "heap \<Rightarrow> jsval \<Rightarrow> thrown + response" where
  "catch_handler h error =
     (case errorMessage h error of
        Inl e \<Rightarrow> Inl e
      | Inr msg \<Rightarrow>
          (case errorObject h error of
             Inl e \<Rightarrow> Inl e
           | Inr ro \<Rightarrow>
               (case serialize_body h ro msg of
                  Inl e \<Rightarrow> Inl e
                | Inr text \<Rightarrow>
                    (case Response_new h (Some text) 599 msg
                            [(js ''Content-Type'', js ''application/json'')] of
                       Inl e \<Rightarrow> Inl e
                     | Inr r \<Rightarrow> Inr (r\<lparr>status := ERROR_STATUS\<rparr>)))))"

text \<open>
  A transport, called with the target and the options, throws at once, returns a promise
  (which is fulfilled, is rejected or stays pending) or returns something that is no
  promise. The wrapper is
  \<^verbatim>\<open>(url, init) => fetch(url, init).catch(handler)\<close>: there is no \<^verbatim>\<open>try\<close> around
  the call, and \<^verbatim>\<open>.catch\<close> on a value without that method is a \<^verbatim>\<open>TypeError\<close>. The
  heap is the one the handler runs in. The result records the calls made to the transport
  and what the caller observes; a fulfilment is the transport's own value or a response
  made by the handler.
\<close>

datatype settlement = Fulfils jsval | Rejects jsval | NeverSettles

datatype call_result = Throws thrown | ReturnsPromise settlement | ReturnsOther jsval

datatype fulfilment = Passed jsval | Synthesized response

datatype outcome = SyncThrow thrown | Fulfilled fulfilment | Rejected thrown | Pending

record invocation =
  calls :: "(jsval \<times> jsval) list"
  outcome :: outcome

definition createSafeFetch ::
  "heap \<Rightarrow> (jsval \<Rightarrow> jsval \<Rightarrow> call_result) \<Rightarrow> jsval \<Rightarrow> jsval \<Rightarrow> invocation"
where
  "createSafeFetch h fetch url init =
     \<lparr>calls = [(url, init)],
      outcome =
        (case fetch url init of
           Throws e \<Rightarrow> SyncThrow e
         | ReturnsOther v \<Rightarrow> SyncThrow TypeError
         | ReturnsPromise NeverSettles \<Rightarrow> Pending
         | ReturnsPromise (Fulfils v) \<Rightarrow> Fulfilled (Passed v)
         | ReturnsPromise (Rejects error) \<Rightarrow>
             (case catch_handler h error of
                Inl e \<Rightarrow> Rejected e
              | Inr r \<Rightarrow> Fulfilled (Synthesized r)))\<rparr>"

text \<open>The response made by the handler, when that is what the caller receives.\<close>

fun synthesized :: "outcome \<Rightarrow> response option" where
  "synthesized (Fulfilled (Synthesized r)) = Some r"
| "synthesized other = None"

subsection \<open>Transports and failure values of the test suite\<close>

text \<open>
  The mocks of \<^verbatim>\<open>tests/index.js\<close>: \<^verbatim>\<open>async () => response\<close>,
  \<^verbatim>\<open>async () => { throw error }\<close> (an async function turns the throw into a
  rejection) and, for contrast, a plain function that throws. \<open>standard_error\<close> is
  \<^verbatim>\<open>new Error(message)\<close> with further properties attached: \<^verbatim>\<open>stack\<close> and
  \<^verbatim>\<open>message\<close> are own, non-enumerable data properties, and \<^verbatim>\<open>Error.prototype\<close>
  provides \<^verbatim>\<open>name\<close> and an empty \<^verbatim>\<open>message\<close>.
\<close>

definition example_url :: jsval where
  "example_url = VStr (js ''https://example.com'')"

definition resolving :: "jsval \<Rightarrow> jsval \<Rightarrow> jsval \<Rightarrow> call_result" where
  "resolving v url init = ReturnsPromise (Fulfils v)"

definition rejecting :: "jsval \<Rightarrow> jsval \<Rightarrow> jsval \<Rightarrow> call_result" where
  "rejecting error url init = ReturnsPromise (Rejects error)"

definition throwing :: "thrown \<Rightarrow> jsval \<Rightarrow> jsval \<Rightarrow> call_result" where
  "throwing e url init = Throws e"

definition data_property :: "string \<Rightarrow> jsval \<Rightarrow> property" where
  "data_property name v =
     \<lparr>pname = StrKey (js name), enumerable = True, writable = True, slot = Data v\<rparr>"

definition hidden_property :: "string \<Rightarrow> jsval \<Rightarrow> property" where
  "hidden_property name v =
     \<lparr>pname = StrKey (js name), enumerable = False, writable = True, slot = Data v\<rparr>"

definition plain_object :: "property list \<Rightarrow> obj" where
  "plain_object ps = \<lparr>callable = False, own = ps, inherited = [], has_object_prototype = True,
     string_conversion = Inr (js ''[object Object]'')\<rparr>"

definition standard_error :: "string \<Rightarrow> property list \<Rightarrow> obj" where
  "standard_error m extra =
     \<lparr>callable = False,
      own = [hidden_property ''stack'' (VStr (js ''Error: '' @ js m @ [10] @ js ''    at mockFetch'')),
             hidden_property ''message'' (VStr (js m))] @ extra,
      inherited = [hidden_property ''name'' (VStr (js ''Error'')),
                   hidden_property ''message'' (VStr [])],
      has_object_prototype = True,
      string_conversion = Inr (js ''Error: '' @ js m)\<rparr>"

text \<open>
  A thrown error with a function-valued property, an ordinary one and a getter that
  throws (the function is the second object of the heap); a thrown plain object with
  a function-valued property and an \<^verbatim>\<open>undefined\<close> one; and a thrown plain object
  whose own properties are \<^verbatim>\<open>__proto__\<close> (an object with a getter \<^verbatim>\<open>foo\<close> and no
  setter), \<^verbatim>\<open>foo\<close> and \<^verbatim>\<open>message\<close>.
\<close>

definition function_object :: obj where
  "function_object = \<lparr>callable = True,
     own = [\<lparr>pname = StrKey (js ''length''), enumerable = False, writable = False,
              slot = Data (VNum (NFin False 0))\<rparr>,
            \<lparr>pname = StrKey (js ''name''), enumerable = False, writable = False,
              slot = Data (VStr (js ''myFunction''))\<rparr>],
     inherited = [], has_object_prototype = True, string_conversion = Inr (js ''() => {}'')\<rparr>"

definition getter_property :: "string \<Rightarrow> slot \<Rightarrow> property" where
  "getter_property name g =
     \<lparr>pname = StrKey (js name), enumerable = True, writable = False, slot = g\<rparr>"

definition error_with_function :: heap where
  "error_with_function =
     [standard_error ''Error with function''
        [data_property ''myFunction'' (VObj 1),
         data_property ''normalProp'' (VStr (js ''value'')),
         getter_property ''broken'' (ThrowingGetter (Thrown (VStr (js ''hostile''))))],
      function_object]"

definition error_with_undefined :: heap where
  "error_with_undefined =
     [plain_object
        [data_property ''message'' (VStr (js ''Error with function'')),
         data_property ''myFunction'' (VObj 1),
         data_property ''detail'' VUndefined],
      function_object]"

definition error_with_prototype :: heap where
  "error_with_prototype =
     [plain_object
        [data_property ''__proto__'' (VObj 1),
         data_property ''foo'' (VNum (NFin False 2)),
         data_property ''message'' (VStr (js ''m''))],
      plain_object [getter_property ''foo'' (Getter (VNum (NFin False 1)))]]"

text \<open>
  Three thrown plain objects: one whose \<^verbatim>\<open>message\<close> is the bigint \<^verbatim>\<open>10n\<close>, one
  whose \<^verbatim>\<open>message\<close> is the object itself, and one whose \<^verbatim>\<open>message\<close> is a getter
  that throws.
\<close>

definition bigint_message :: heap where
  "bigint_message = [plain_object [data_property ''message'' (VBigInt 10)]]"

definition cyclic_message :: heap where
  "cyclic_message = [plain_object [data_property ''message'' (VObj 0)]]"

definition hostile_message :: heap where
  "hostile_message =
     [plain_object [getter_property ''message'' (ThrowingGetter (Thrown (VStr (js ''hostile'')))),
                    data_property ''code'' (VNum (NFin False 7))]]"

subsection \<open>The record and the body as the specification describes them\<close>

text \<open>
  The specification's description of the normalized error record, to be compared with
  \<open>errorObject\<close>: a property is kept, under its name, when reading it does not throw
  and its value is neither a function nor a symbol. \<open>json_member\<close> is the member a
  kept property contributes to the JSON document of the body: none when the value has no
  JSON form.
\<close>

definition kept_property :: "heap \<Rightarrow> jsval \<Rightarrow> jsstring \<Rightarrow> (jsstring \<times> jsval) option" where
  "kept_property h error name =
     (case get_property h error name of
        Inl e \<Rightarrow> None
      | Inr v \<Rightarrow> if typeof h v = TFunction \<or> typeof h v = TSymbol then None else Some (name, v))"

definition json_member :: "heap \<Rightarrow> jsstring \<times> jsval \<Rightarrow> (jsstring \<times> json) option" where
  "json_member h kv =
     (case ser_value h [] (snd kv) of
        Inr (Some j) \<Rightarrow> Some (fst kv, j)
      | other \<Rightarrow> None)"

section \<open>Properties of the wrapper\<close>

subsection \<open>Evaluation and structure lemmas\<close>

lemmas eval_text = js_def quote_def escape_unit_def is_high_surrogate_def is_low_surrogate_def
  unicode_escape_def

lemma lower_Content_Type: "ascii_lower (js ''Content-Type'') = js ''content-type''"
  by (simp add: ascii_lower_def js_def)

lemma lower_content_type: "ascii_lower (js ''content-type'') = js ''content-type''"
  by (simp add: ascii_lower_def js_def)

lemma catch_handler_headers:
  "catch_handler h error = Inr r \<Longrightarrow> headers r = [(js ''Content-Type'', js ''application/json'')]"
  by (auto simp: catch_handler_def Response_new_def headers_get_def lower_Content_Type
        lower_content_type split: sum.splits if_splits)

lemma catch_handler_status: "catch_handler h error = Inr r \<Longrightarrow> status r = ERROR_STATUS"
  by (auto simp: catch_handler_def split: sum.splits)

lemma synthesized_handler:
  "outcome (createSafeFetch h fetch url init) = Fulfilled (Synthesized r) \<Longrightarrow>
   \<exists>error. fetch url init = ReturnsPromise (Rejects error) \<and> catch_handler h error = Inr r"
  by (auto simp: createSafeFetch_def split: call_result.splits settlement.splits sum.splits)

lemma rejected_outcome:
  "fetch url init = ReturnsPromise (Rejects error) \<Longrightarrow>
   outcome (createSafeFetch h fetch url init) =
     (case catch_handler h error of Inl e \<Rightarrow> Rejected e | Inr r \<Rightarrow> Fulfilled (Synthesized r))"
  by (simp add: createSafeFetch_def)

lemma errorMessage_string: "errorMessage h (VStr s) = Inr (VStr s)"
  by (simp add: errorMessage_def)

lemma errorObject_string: "errorObject h (VStr s) = Inr [(js ''message'', VStr s)]"
  by (simp add: errorObject_def)

lemma stringify_message_string:
  "JSON_stringify h [(js ''message'', VStr s)] =
     Inr (json_text (JObject [(js ''message'', JString s)]))"
  by (simp add: JSON_stringify_def record_properties_def)

lemma reason_phrase_bytes: "is_reason_phrase s \<Longrightarrow> list_all (\<lambda>c. c \<le> 255) s"
  by (induction s) (auto simp: is_reason_phrase_def reason_phrase_unit_def)

text \<open>
  What the handler does with a thrown string: the response, unless the string is no
  reason phrase and the \<^verbatim>\<open>Response\<close> constructor throws.
\<close>

lemma catch_handler_string:
  "catch_handler h (VStr s) =
     (if is_reason_phrase s
      then Inr \<lparr>status = ERROR_STATUS, statusText = s,
                headers = [(js ''Content-Type'', js ''application/json'')],
                body = Some (json_text (JObject [(js ''message'', JString s)]))\<rparr>
      else Inl TypeError)"
  by (auto simp: catch_handler_def errorMessage_string errorObject_string serialize_body_def
        stringify_message_string Response_new_def to_byte_string_def headers_get_def
        lower_Content_Type lower_content_type reason_phrase_bytes)

lemma rejecting_outcome:
  "outcome (createSafeFetch h (rejecting error) url init) =
     (case catch_handler h error of Inl e \<Rightarrow> Rejected e | Inr r \<Rightarrow> Fulfilled (Synthesized r))"
  by (simp add: createSafeFetch_def rejecting_def)

lemma js_eq_iff: "js a = js b \<longleftrightarrow> a = b"
  by (simp add: js_def inj_map_eq_map inj_of_char)

lemma unknown_error_phrase: "is_reason_phrase (js ''Unknown error'')"
  by (simp add: is_reason_phrase_def reason_phrase_unit_def js_def)

text \<open>The handler, step by step, when every step succeeds.\<close>

lemma catch_handler_steps:
  assumes "errorMessage h error = Inr msg"
    and "errorObject h error = Inr ro"
    and "serialize_body h ro msg = Inr b"
    and "to_byte_string h msg = Inr t"
    and "is_reason_phrase t"
  shows "catch_handler h error =
           Inr \<lparr>status = ERROR_STATUS, statusText = t,
                headers = [(js ''Content-Type'', js ''application/json'')], body = Some b\<rparr>"
  using assms
  by (simp add: catch_handler_def Response_new_def headers_get_def lower_Content_Type
        lower_content_type)

subsection \<open>The success path and the synchronous throw\<close>

text \<open>
  C3. The wrapper calls the transport once, with the target and the options it was
  given, and when the transport's promise is fulfilled with a value the caller receives
  that very value (for an object, the same address), whatever the heap.
\<close>

theorem passthrough_on_success:
  "calls (createSafeFetch h fetch url init) = [(url, init)] \<and>
   (fetch url init = ReturnsPromise (Fulfils v) \<longrightarrow>
      outcome (createSafeFetch h fetch url init) = Fulfilled (Passed v))"
  by (simp add: createSafeFetch_def)

theorem passthrough_on_success_witness:
  "resolving (VObj 0) example_url (VObj 1) = ReturnsPromise (Fulfils (VObj 0)) \<and>
   calls (createSafeFetch [] (resolving (VObj 0)) example_url (VObj 1)) = [(example_url, VObj 1)] \<and>
   outcome (createSafeFetch [] (resolving (VObj 0)) example_url (VObj 1)) = Fulfilled (Passed (VObj 0))"
  using passthrough_on_success [of "[]" "resolving (VObj 0)" example_url "VObj 1" "VObj 0"]
  by (simp add: resolving_def)

text \<open>
  C2, as the code has it. A transport that throws when it is called is not caught: the
  wrapped call throws the same value, and no response is made. Only a rejected promise
  reaches the handler.
\<close>

theorem sync_throw_not_caught:
  "fetch url init = Throws e \<Longrightarrow>
   outcome (createSafeFetch h fetch url init) = SyncThrow e \<and>
   synthesized (outcome (createSafeFetch h fetch url init)) = None"
  by (simp add: createSafeFetch_def)

theorem sync_throw_not_caught_witness:
  "throwing (Thrown (VStr (js ''boom''))) example_url VUndefined = Throws (Thrown (VStr (js ''boom''))) \<and>
   outcome (createSafeFetch [] (throwing (Thrown (VStr (js ''boom'')))) example_url VUndefined)
     = SyncThrow (Thrown (VStr (js ''boom'')))"
  using sync_throw_not_caught [of "throwing (Thrown (VStr (js ''boom'')))" example_url VUndefined
      "Thrown (VStr (js ''boom''))" "[]"]
  by (simp add: throwing_def)

text \<open>
  C2, as the claim states it, fails: the transport \<^verbatim>\<open>() => { throw "boom" }\<close> makes
  the wrapped call throw, and the caller receives no substitute response.
\<close>

theorem sync_throw_counterexample:
  "synthesized (outcome (createSafeFetch [] (throwing (Thrown (VStr (js ''boom'')))) example_url VUndefined))
     = None \<and>
   outcome (createSafeFetch [] (throwing (Thrown (VStr (js ''boom'')))) example_url VUndefined)
     = SyncThrow (Thrown (VStr (js ''boom'')))"
  by (simp add: createSafeFetch_def throwing_def)

subsection \<open>The synthesized response\<close>

text \<open>
  C9. Every response made by the handler carries exactly one header,
  \<^verbatim>\<open>Content-Type: application/json\<close>, and a lookup of the content type (in any
  case of the letters) yields \<^verbatim>\<open>application/json\<close>.
\<close>

theorem content_type_json:
  "outcome (createSafeFetch h fetch url init) = Fulfilled (Synthesized r) \<Longrightarrow>
   headers r = [(js ''Content-Type'', js ''application/json'')] \<and>
   headers_get (headers r) (js ''content-type'') = Some (js ''application/json'')"
proof -
  assume "outcome (createSafeFetch h fetch url init) = Fulfilled (Synthesized r)"
  then obtain error where "catch_handler h error = Inr r"
    using synthesized_handler by blast
  then have "headers r = [(js ''Content-Type'', js ''application/json'')]"
    by (rule catch_handler_headers)
  then show ?thesis
    by (simp add: headers_get_def lower_Content_Type lower_content_type)
qed

theorem content_type_json_witness:
  "outcome (createSafeFetch [] (rejecting (VStr (js ''Test error''))) example_url VUndefined)
     = Fulfilled (Synthesized
         \<lparr>status = 10001, statusText = js ''Test error'',
          headers = [(js ''Content-Type'', js ''application/json'')],
          body = Some (json_text (JObject [(js ''message'', JString (js ''Test error''))]))\<rparr>) \<and>
   headers_get [(js ''Content-Type'', js ''application/json'')] (js ''content-type'')
     = Some (js ''application/json'')"
proof -
  have phrase: "is_reason_phrase (js ''Test error'')"
    by (simp add: is_reason_phrase_def reason_phrase_unit_def js_def)
  have out: "outcome (createSafeFetch [] (rejecting (VStr (js ''Test error''))) example_url VUndefined)
     = Fulfilled (Synthesized
         \<lparr>status = 10001, statusText = js ''Test error'',
          headers = [(js ''Content-Type'', js ''application/json'')],
          body = Some (json_text (JObject [(js ''message'', JString (js ''Test error''))]))\<rparr>)"
    by (simp only: rejecting_outcome catch_handler_string phrase if_True sum.case
          ERROR_STATUS_def)
  from content_type_json [OF out] out show ?thesis
    by simp
qed

subsection \<open>String literals are read back as written\<close>

lemma hex_digit: "d < 16 \<Longrightarrow> hex_value (digit_unit d) = Some d"
  by (simp add: hex_value_def)

lemma hex4_digits:
  assumes "c < 65536"
  shows "hex4 [digit_unit (c div 4096 mod 16), digit_unit (c div 256 mod 16),
               digit_unit (c div 16 mod 16), digit_unit (c mod 16)] = Some c"
proof -
  have a: "c mod 256 = 16 * (c div 16 mod 16) + c mod 16"
    using mod_mult2_eq [of c 16 16] by simp
  have b: "c mod 4096 = 256 * (c div 256 mod 16) + c mod 256"
    using mod_mult2_eq [of c 256 16] by simp
  have d: "c mod 65536 = 4096 * (c div 4096 mod 16) + c mod 4096"
    using mod_mult2_eq [of c 4096 16] by simp
  have "c mod 65536 = c"
    using assms by simp
  with a b d
  have "4096 * (c div 4096 mod 16) + 256 * (c div 256 mod 16) + 16 * (c div 16 mod 16) + c mod 16 = c"
    by linarith
  moreover have "hex_value (digit_unit (c div 4096 mod 16)) = Some (c div 4096 mod 16)"
    by (rule hex_digit) simp
  moreover have "hex_value (digit_unit (c div 256 mod 16)) = Some (c div 256 mod 16)"
    by (rule hex_digit) simp
  moreover have "hex_value (digit_unit (c div 16 mod 16)) = Some (c div 16 mod 16)"
    by (rule hex_digit) simp
  moreover have "hex_value (digit_unit (c mod 16)) = Some (c mod 16)"
    by (rule hex_digit) simp
  ultimately show ?thesis
    by (simp only: hex4.simps option.case)
qed

lemma unquote_unicode_shape:
  "unquote_units (unicode_escape c @ r) =
     (case hex4 [digit_unit (c div 4096 mod 16), digit_unit (c div 256 mod 16),
                 digit_unit (c div 16 mod 16), digit_unit (c mod 16)] of
        None \<Rightarrow> None
      | Some n \<Rightarrow> map_option ((#) n) (unquote_units r))"
  by (simp add: unicode_escape_def del: digit_unit.simps hex4.simps cong: option.case_cong)

lemma unquote_unicode_escape:
  "c < 65536 \<Longrightarrow> unquote_units (unicode_escape c @ r) = map_option ((#) c) (unquote_units r)"
  by (simp only: unquote_unicode_shape hex4_digits option.case)

lemma unquote_literal:
  "c \<noteq> 92 \<Longrightarrow> c \<noteq> 34 \<Longrightarrow> 32 \<le> c \<Longrightarrow>
   unquote_units (c # r) = map_option ((#) c) (unquote_units r)"
  by simp

lemma unquote_simple:
  "simple_escape e = Some c \<Longrightarrow> e \<noteq> 117 \<Longrightarrow>
   unquote_units (92 # e # r) = map_option ((#) c) (unquote_units r)"
  by simp

declare unquote_units.simps(2) [simp del]

lemma unquote_escape_unit:
  "unquote_units (escape_unit c @ r) = map_option ((#) c) (unquote_units r)"
proof -
  consider "c = 8" | "c = 9" | "c = 10" | "c = 12" | "c = 13" | "c = 34" | "c = 92"
    | "c < 32" "c \<notin> {8, 9, 10, 12, 13}"
    | "32 \<le> c" "c \<noteq> 34" "c \<noteq> 92"
    by fastforce
  then show ?thesis
  proof cases
    case 8
    then have "escape_unit c = unicode_escape c"
      by (auto simp: escape_unit_def)
    then show ?thesis
      using 8 unquote_unicode_escape [of c r] by simp
  next
    case 9
    then have "escape_unit c = [c]"
      by (auto simp: escape_unit_def)
    then show ?thesis
      using 9 by (simp add: unquote_literal)
  qed (simp_all add: escape_unit_def unquote_simple simple_escape_def)
qed

lemma surrogate_bound: "is_high_surrogate c \<or> is_low_surrogate c \<Longrightarrow> c < 65536"
  by (auto simp: is_high_surrogate_def is_low_surrogate_def)

lemma unquote_quote_units: "unquote_units (quote_units s) = Some s"
proof (induction s rule: quote_units.induct)
  case 1
  then show ?case by simp
next
  case (2 c)
  show ?case
  proof (cases "is_high_surrogate c \<or> is_low_surrogate c")
    case True
    then show ?thesis
      using unquote_unicode_escape [OF surrogate_bound [OF True], of "[]"] by simp
  next
    case False
    then show ?thesis
      using unquote_escape_unit [of c "[]"] by simp
  qed
next
  case (3 c d ds)
  show ?case
  proof (cases "is_high_surrogate c \<and> is_low_surrogate d")
    case True
    then have "unquote_units (quote_units ds) = Some ds"
      using "3.IH"(1) by simp
    moreover have "quote_units (c # d # ds) = c # d # quote_units ds"
      using True by simp
    moreover have "c \<noteq> 92" "c \<noteq> 34" "32 \<le> c" "d \<noteq> 92" "d \<noteq> 34" "32 \<le> d"
      using True by (auto simp: is_high_surrogate_def is_low_surrogate_def)
    ultimately show ?thesis
      by (simp add: unquote_literal)
  next
    case False
    note pair = this
    show ?thesis
    proof (cases "is_high_surrogate c \<or> is_low_surrogate c")
      case True
      then have "unquote_units (quote_units (d # ds)) = Some (d # ds)"
        using "3.IH"(2) pair by simp
      moreover have "quote_units (c # d # ds) = unicode_escape c @ quote_units (d # ds)"
        by (simp only: quote_units.simps pair True if_False if_True)
      ultimately show ?thesis
        by (simp add: unquote_unicode_escape [OF surrogate_bound [OF True]])
    next
      case False
      then have "unquote_units (quote_units (d # ds)) = Some (d # ds)"
        using "3.IH"(3) pair by simp
      moreover have "quote_units (c # d # ds) = escape_unit c @ quote_units (d # ds)"
        by (simp only: quote_units.simps pair False if_False)
      ultimately show ?thesis
        by (simp add: unquote_escape_unit)
    qed
  qed
qed

lemma read_quote: "read_string_literal (quote s) = Some s"
  by (simp add: read_string_literal_def quote_def unquote_quote_units butlast_append)


subsection \<open>The body for a thrown string\<close>

text \<open>
  C8. When the transport rejects with a string \<open>s\<close>, the response made by the handler
  has as body the JSON text of the one-member object \<^verbatim>\<open>{message: s}\<close>, and \<open>s\<close> as
  status text. The text is a brace, the literal of \<^verbatim>\<open>message\<close>, a colon, the literal
  of \<open>s\<close> and a brace, and the two literals are read back as \<^verbatim>\<open>message\<close> and
  \<open>s\<close>. At \<^verbatim>\<open>"String error message"\<close> the body is the 34 code units of
  \<^verbatim>\<open>{"message":"String error message"}\<close> (34 is the double quote, 123 and 125 the
  braces, 58 the colon).
\<close>

theorem string_failure_body:
  "fetch url init = ReturnsPromise (Rejects (VStr s)) \<Longrightarrow>
   outcome (createSafeFetch h fetch url init) = Fulfilled (Synthesized r) \<Longrightarrow>
   body r = Some (json_text (JObject [(js ''message'', JString s)])) \<and>
   body r = Some (js ''{'' @ quote (js ''message'') @ js '':'' @ quote s @ js ''}'') \<and>
   read_string_literal (quote (js ''message'')) = Some (js ''message'') \<and>
   read_string_literal (quote s) = Some s \<and>
   statusText r = s"
  by (auto simp: createSafeFetch_def catch_handler_string read_quote split: if_splits)

theorem string_failure_body_witness:
  "rejecting (VStr (js ''String error message'')) example_url VUndefined
     = ReturnsPromise (Rejects (VStr (js ''String error message''))) \<and>
   outcome (createSafeFetch [] (rejecting (VStr (js ''String error message''))) example_url VUndefined)
     = Fulfilled (Synthesized
         \<lparr>status = 10001, statusText = js ''String error message'',
          headers = [(js ''Content-Type'', js ''application/json'')],
          body = Some ([123, 34] @ js ''message'' @ [34, 58, 34] @ js ''String error message''
                        @ [34, 125])\<rparr>) \<and>
   Some ([123, 34] @ js ''message'' @ [34, 58, 34] @ js ''String error message'' @ [34, 125])
     = Some (json_text (JObject [(js ''message'', JString (js ''String error message''))]))"
proof -
  have rej: "rejecting (VStr (js ''String error message'')) example_url VUndefined
     = ReturnsPromise (Rejects (VStr (js ''String error message'')))"
    by (simp add: rejecting_def)
  have phrase: "is_reason_phrase (js ''String error message'')"
    by (simp add: is_reason_phrase_def reason_phrase_unit_def js_def)
  have rendered: "json_text (JObject [(js ''message'', JString (js ''String error message''))])
      = [123, 34] @ js ''message'' @ [34, 58, 34] @ js ''String error message'' @ [34, 125]"
    by (simp add: eval_text)
  have out: "outcome (createSafeFetch [] (rejecting (VStr (js ''String error message''))) example_url VUndefined)
     = Fulfilled (Synthesized
         \<lparr>status = 10001, statusText = js ''String error message'',
          headers = [(js ''Content-Type'', js ''application/json'')],
          body = Some ([123, 34] @ js ''message'' @ [34, 58, 34] @ js ''String error message''
                        @ [34, 125])\<rparr>)"
    by (simp only: rejecting_outcome catch_handler_string phrase rendered if_True
          sum.case ERROR_STATUS_def)
  from string_failure_body [of "rejecting (VStr (js ''String error message''))" example_url
      VUndefined "js ''String error message''" "[]", OF rej out] rej out show ?thesis
    by simp
qed

lemma stringify_empty: "JSON_stringify h [] = Inr (js ''{}'')"
  by (simp add: JSON_stringify_def record_properties_def js_def)

lemma to_byte_string_phrase: "is_reason_phrase s \<Longrightarrow> to_byte_string h (VStr s) = Inr s"
  by (simp add: to_byte_string_def reason_phrase_bytes)

subsection \<open>Thrown values without properties\<close>

text \<open>
  When the transport rejects with a value that is no string, whose own property names
  can be asked for and are none, and whose \<^verbatim>\<open>message\<close> reads as \<^verbatim>\<open>undefined\<close>, the
  caller receives a response with status text \<^verbatim>\<open>Unknown error\<close> and body \<^verbatim>\<open>{}\<close>.
  The numbers, the booleans, the bigints and the symbols are such values.
\<close>

lemma bare_failure_response:
  assumes "fetch url init = ReturnsPromise (Rejects error)"
    and "typeof h error \<noteq> TString"
    and "getOwnPropertyNames h error = Inr []"
    and "get_property h error (js ''message'') = Inr VUndefined"
  shows "outcome (createSafeFetch h fetch url init) =
           Fulfilled (Synthesized
             \<lparr>status = 10001, statusText = js ''Unknown error'',
              headers = [(js ''Content-Type'', js ''application/json'')],
              body = Some (js ''{}'')\<rparr>)"
proof -
  have msg: "errorMessage h error = Inr (VStr (js ''Unknown error''))"
    using assms(2,4) by (simp add: errorMessage_def)
  have ro: "errorObject h error = Inr []"
    using assms(2,3) by (simp add: errorObject_def)
  have b: "serialize_body h [] (VStr (js ''Unknown error'')) = Inr (js ''{}'')"
    by (simp add: serialize_body_def stringify_empty)
  have "catch_handler h error =
           Inr \<lparr>status = ERROR_STATUS, statusText = js ''Unknown error'',
                headers = [(js ''Content-Type'', js ''application/json'')],
                body = Some (js ''{}'')\<rparr>"
    by (rule catch_handler_steps [OF msg ro b to_byte_string_phrase [OF unknown_error_phrase]
          unknown_error_phrase])
  then show ?thesis
    using assms(1) by (simp add: createSafeFetch_def ERROR_STATUS_def)
qed

lemma bare_failure_examples:
  "(rejecting (VNum (NFin False 42)) example_url VUndefined = ReturnsPromise (Rejects (VNum (NFin False 42))) \<and>
    typeof [] (VNum (NFin False 42)) \<noteq> TString \<and>
    getOwnPropertyNames [] (VNum (NFin False 42)) = Inr [] \<and>
    get_property [] (VNum (NFin False 42)) (js ''message'') = Inr VUndefined \<and>
    outcome (createSafeFetch [] (rejecting (VNum (NFin False 42))) example_url VUndefined) =
      Fulfilled (Synthesized
        \<lparr>status = 10001, statusText = js ''Unknown error'',
         headers = [(js ''Content-Type'', js ''application/json'')],
         body = Some (js ''{}'')\<rparr>)) \<and>
   outcome (createSafeFetch [] (rejecting (VBool True)) example_url VUndefined) =
      Fulfilled (Synthesized
        \<lparr>status = 10001, statusText = js ''Unknown error'',
         headers = [(js ''Content-Type'', js ''application/json'')],
         body = Some (js ''{}'')\<rparr>)"
  using bare_failure_response [of "rejecting (VNum (NFin False 42))" example_url VUndefined
          "VNum (NFin False 42)" "[]"]
        bare_failure_response [of "rejecting (VBool True)" example_url VUndefined
          "VBool True" "[]"]
  by (simp add: rejecting_def)

text \<open>
  C10 at a failing input. \<^verbatim>\<open>null\<close> is a primitive that is no string and has neither
  own properties nor a \<^verbatim>\<open>message\<close>. When the transport rejects with it, the read of
  \<^verbatim>\<open>error.message\<close> throws a \<^verbatim>\<open>TypeError\<close> outside any \<^verbatim>\<open>try\<close>: the wrapped call
  rejects, and there is no response with status text \<^verbatim>\<open>Unknown error\<close> and body
  \<^verbatim>\<open>{}\<close>. So it is for \<^verbatim>\<open>undefined\<close>.
\<close>

theorem null_primitive_rejects:
  "typeof [] VNull \<noteq> TString \<and>
   errorMessage [] VNull = Inl TypeError \<and>
   outcome (createSafeFetch [] (rejecting VNull) example_url VUndefined) = Rejected TypeError \<and>
   synthesized (outcome (createSafeFetch [] (rejecting VNull) example_url VUndefined)) = None \<and>
   errorMessage [] VUndefined = Inl TypeError \<and>
   outcome (createSafeFetch [] (rejecting VUndefined) example_url VUndefined) = Rejected TypeError"
  by (simp add: rejecting_outcome catch_handler_def errorMessage_def)

subsection \<open>The status text\<close>

lemmas eval_fixture = standard_error_def plain_object_def data_property_def hidden_property_def
  getter_property_def function_object_def h_get_def js_eq_iff

lemma js_Nil_iff: "js m = [] \<longleftrightarrow> m = []"
  by (simp add: js_def)

lemma errorMessage_standard_error:
  "m \<noteq> [] \<Longrightarrow> errorMessage [standard_error m extra] (VObj 0) = Inr (VStr (js m))"
  by (simp add: errorMessage_def eval_fixture js_Nil_iff)

lemma errorObject_standard_error:
  "errorObject [standard_error m []] (VObj 0) =
     Inr [(js ''stack'', VStr (js ''Error: '' @ js m @ [10] @ js ''    at mockFetch'')),
          (js ''message'', VStr (js m))]"
  by (simp add: errorObject_def eval_fixture assign_property_def
        inherited_target_def)

lemma stringify_standard_error:
  "JSON_stringify h [(js ''stack'', VStr st), (js ''message'', VStr (js m))] =
     Inr (json_text (JObject [(js ''stack'', JString st), (js ''message'', JString (js m))]))"
  by (simp add: JSON_stringify_def record_properties_def)

lemma catch_handler_standard_error:
  assumes "m \<noteq> []" and "is_reason_phrase (js m)"
  shows "catch_handler [standard_error m []] (VObj 0) =
     Inr \<lparr>status = ERROR_STATUS, statusText = js m,
          headers = [(js ''Content-Type'', js ''application/json'')],
          body = Some (json_text (JObject
            [(js ''stack'', JString (js ''Error: '' @ js m @ [10] @ js ''    at mockFetch'')),
             (js ''message'', JString (js m))]))\<rparr>"
  by (rule catch_handler_steps [OF errorMessage_standard_error [OF assms(1)]
        errorObject_standard_error _ to_byte_string_phrase [OF assms(2)] assms(2)])
     (simp add: serialize_body_def stringify_standard_error)

lemma errorMessage_42:
  "errorMessage [plain_object [data_property ''message'' (VNum (NFin False 42))]] (VObj 0) = Inr (VNum (NFin False 42))"
  by (simp add: errorMessage_def eval_fixture)

lemma errorObject_42:
  "errorObject [plain_object [data_property ''message'' (VNum (NFin False 42))]] (VObj 0)
    = Inr [(js ''message'', VNum (NFin False 42))]"
  by (simp add: errorObject_def eval_fixture assign_property_def
        inherited_target_def)

lemma serialize_42:
  "serialize_body h [(js ''message'', VNum (NFin False 42))] msg = Inr (json_text (JObject [(js ''message'', JNumber False 42)]))"
  by (simp add: serialize_body_def JSON_stringify_def record_properties_def)

lemma dec_42: "number_text False 42 = js ''42''"
  by (simp add: number_text_def js_def)

lemma to_byte_42: "to_byte_string h (VNum (NFin False 42)) = Inr (js ''42'')"
  by (simp add: to_byte_string_def dec_42) (simp add: js_def)

lemma phrase_42: "is_reason_phrase (js ''42'')"
  by (simp add: is_reason_phrase_def reason_phrase_unit_def js_def)

text \<open>
  C4, as the code has it. In every response made by the handler the status text is: the
  thrown value when it is a string; otherwise the string conversion of the \<^verbatim>\<open>message\<close>
  property when that value is truthy, which is the property itself when it is a
  non-empty string; otherwise (the property is absent, or \<^verbatim>\<open>undefined\<close>, \<^verbatim>\<open>null\<close>,
  \<^verbatim>\<open>false\<close>, zero, \<^verbatim>\<open>NaN\<close> or the empty string) \<^verbatim>\<open>Unknown error\<close>.
\<close>

theorem status_text_summary:
  assumes "fetch url init = ReturnsPromise (Rejects error)"
    and "outcome (createSafeFetch h fetch url init) = Fulfilled (Synthesized r)"
  shows "(\<forall>s. error = VStr s \<longrightarrow> statusText r = s) \<and>
         (typeof h error \<noteq> TString \<longrightarrow>
            (\<exists>m. get_property h error (js ''message'') = Inr m \<and>
                 (\<forall>s. m = VStr s \<and> s \<noteq> [] \<longrightarrow> statusText r = s) \<and>
                 (truthy m \<longrightarrow> to_string h m = Inr (statusText r)) \<and>
                 (\<not> truthy m \<longrightarrow> statusText r = js ''Unknown error'')))"
proof -
  from assms have ch: "catch_handler h error = Inr r"
    by (simp add: createSafeFetch_def split: sum.splits)
  then obtain msg where msg: "errorMessage h error = Inr msg"
    and st: "to_byte_string h msg = Inr (statusText r)"
    by (auto simp: catch_handler_def Response_new_def split: sum.splits if_splits)
  from st have ts: "to_string h msg = Inr (statusText r)"
    by (auto simp: to_byte_string_def split: sum.splits if_splits)
  have str: "\<forall>s. error = VStr s \<longrightarrow> statusText r = s"
    using msg ts by (auto simp: errorMessage_string)
  have obj: "typeof h error \<noteq> TString \<longrightarrow>
            (\<exists>m. get_property h error (js ''message'') = Inr m \<and>
                 (\<forall>s. m = VStr s \<and> s \<noteq> [] \<longrightarrow> statusText r = s) \<and>
                 (truthy m \<longrightarrow> to_string h m = Inr (statusText r)) \<and>
                 (\<not> truthy m \<longrightarrow> statusText r = js ''Unknown error''))"
    using msg ts by (auto simp: errorMessage_def split: sum.splits if_splits)
  from str obj show ?thesis by blast
qed


theorem status_text_summary_witness:
  "rejecting (VObj 0) example_url VUndefined = ReturnsPromise (Rejects (VObj 0)) \<and>
   outcome (createSafeFetch [standard_error ''Network error occurred'' []] (rejecting (VObj 0))
              example_url VUndefined)
     = Fulfilled (Synthesized
         \<lparr>status = 10001, statusText = js ''Network error occurred'',
          headers = [(js ''Content-Type'', js ''application/json'')],
          body = Some (json_text (JObject
            [(js ''stack'', JString (js ''Error: '' @ js ''Network error occurred'' @ [10]
                                      @ js ''    at mockFetch'')),
             (js ''message'', JString (js ''Network error occurred''))]))\<rparr>) \<and>
   typeof [standard_error ''Network error occurred'' []] (VObj 0) \<noteq> TString \<and>
   get_property [standard_error ''Network error occurred'' []] (VObj 0) (js ''message'')
     = Inr (VStr (js ''Network error occurred'')) \<and>
   truthy (VStr (js ''Network error occurred''))"
proof -
  have rej: "rejecting (VObj 0) example_url VUndefined = ReturnsPromise (Rejects (VObj 0))"
    by (simp add: rejecting_def)
  have ne: "''Network error occurred'' \<noteq> []"
    by simp
  have phrase: "is_reason_phrase (js ''Network error occurred'')"
    by (simp add: is_reason_phrase_def reason_phrase_unit_def js_def)
  have out: "outcome (createSafeFetch [standard_error ''Network error occurred'' []]
                (rejecting (VObj 0)) example_url VUndefined)
     = Fulfilled (Synthesized
         \<lparr>status = 10001, statusText = js ''Network error occurred'',
          headers = [(js ''Content-Type'', js ''application/json'')],
          body = Some (json_text (JObject
            [(js ''stack'', JString (js ''Error: '' @ js ''Network error occurred'' @ [10]
                                      @ js ''    at mockFetch'')),
             (js ''message'', JString (js ''Network error occurred''))]))\<rparr>)"
    by (simp only: rejecting_outcome sum.case ERROR_STATUS_def
          catch_handler_standard_error [OF ne phrase])
  have not_string: "typeof [standard_error ''Network error occurred'' []] (VObj 0) \<noteq> TString"
    by (simp add: eval_fixture)
  have msg: "get_property [standard_error ''Network error occurred'' []] (VObj 0) (js ''message'')
     = Inr (VStr (js ''Network error occurred''))"
    by (simp add: eval_fixture)
  have tr: "truthy (VStr (js ''Network error occurred''))"
    by (simp add: js_Nil_iff)
  from status_text_summary [of "rejecting (VObj 0)" example_url VUndefined "VObj 0"
      "[standard_error ''Network error occurred'' []]", OF rej out] rej out not_string msg tr
  show ?thesis by simp
qed

text \<open>
  C4, as the claim states it, fails at the thrown object \<^verbatim>\<open>{message: 42}\<close>: the
  \<^verbatim>\<open>message\<close> property is present and is the number 42, while the status text of the
  response is the string \<^verbatim>\<open>42\<close>, which is neither that property nor
  \<^verbatim>\<open>Unknown error\<close>.
\<close>

theorem status_text_counterexample:
  "outcome (createSafeFetch [plain_object [data_property ''message'' (VNum (NFin False 42))]]
              (rejecting (VObj 0)) example_url VUndefined)
     = Fulfilled (Synthesized
         \<lparr>status = 10001, statusText = js ''42'',
          headers = [(js ''Content-Type'', js ''application/json'')],
          body = Some (json_text (JObject [(js ''message'', JNumber False 42)]))\<rparr>) \<and>
   get_property [plain_object [data_property ''message'' (VNum (NFin False 42))]] (VObj 0) (js ''message'')
     = Inr (VNum (NFin False 42)) \<and>
   VStr (js ''42'') \<noteq> VNum (NFin False 42) \<and>
   js ''42'' \<noteq> js ''Unknown error''"
proof -
  have "outcome (createSafeFetch [plain_object [data_property ''message'' (VNum (NFin False 42))]]
              (rejecting (VObj 0)) example_url VUndefined)
     = Fulfilled (Synthesized
         \<lparr>status = 10001, statusText = js ''42'',
          headers = [(js ''Content-Type'', js ''application/json'')],
          body = Some (json_text (JObject [(js ''message'', JNumber False 42)]))\<rparr>)"
    by (simp only: rejecting_outcome sum.case ERROR_STATUS_def
          catch_handler_steps [OF errorMessage_42 errorObject_42 serialize_42 to_byte_42 phrase_42])
  moreover have "get_property [plain_object [data_property ''message'' (VNum (NFin False 42))]] (VObj 0)
      (js ''message'') = Inr (VNum (NFin False 42))"
    by (simp add: eval_fixture)
  moreover have "js ''42'' \<noteq> js ''Unknown error''"
    by (simp add: js_eq_iff)
  ultimately show ?thesis by simp
qed


subsection \<open>The normalized error record\<close>

lemma assign_property_fresh:
  "name \<notin> fst ` set ro \<Longrightarrow> name \<noteq> js ''__proto__'' \<Longrightarrow>
   assign_property h (ObjectPrototype, ro) name v = (ObjectPrototype, ro @ [(name, v)])"
  by (simp add: assign_property_def inherited_target_def)

lemma collect_properties_fresh:
  "distinct names \<Longrightarrow> set names \<inter> fst ` set ro = {} \<Longrightarrow> js ''__proto__'' \<notin> set names \<Longrightarrow>
   collect_properties h error names (ObjectPrototype, ro) =
     (ObjectPrototype, ro @ List.map_filter (kept_property h error) names)"
proof (induction names arbitrary: ro)
  case Nil
  then show ?case by (simp add: List.map_filter_simps)
next
  case (Cons name names)
  have fresh: "name \<notin> fst ` set ro"
    using Cons.prems(2) by auto
  have d: "distinct names" and nin: "name \<notin> set names"
    using Cons.prems(1) by auto
  have disj: "set names \<inter> fst ` set ro = {}"
    using Cons.prems(2) by auto
  have disj': "set names \<inter> fst ` set (ro @ [(name, v)]) = {}" for v
    using disj nin by auto
  have np: "name \<noteq> js ''__proto__''" and nps: "js ''__proto__'' \<notin> set names"
    using Cons.prems(3) by auto
  show ?case
  proof (cases "get_property h error name")
    case (Inl e)
    then show ?thesis
      using Cons.IH [OF d disj nps]
      by (simp add: kept_property_def List.map_filter_simps)
  next
    case (Inr v)
    show ?thesis
    proof (cases "typeof h v = TFunction \<or> typeof h v = TSymbol")
      case True
      then show ?thesis
        using Inr Cons.IH [OF d disj nps]
        by (auto simp: kept_property_def List.map_filter_simps)
    next
      case False
      then show ?thesis
        using Inr Cons.IH [OF d disj' nps, of v]
        by (auto simp: kept_property_def List.map_filter_simps
              assign_property_fresh [OF fresh np])
    qed
  qed
qed

lemma ser_props_record:
  "ser_props h [] (record_properties ro) = Inr kvs \<Longrightarrow> kvs = List.map_filter (json_member h) ro"
proof (induction ro arbitrary: kvs)
  case Nil
  then show ?case by (simp add: record_properties_def List.map_filter_simps)
next
  case (Cons kv ro)
  obtain k v where kv: "kv = (k, v)" by (cases kv)
  from Cons.prems kv show ?case
    using Cons.IH
    by (auto simp: record_properties_def List.map_filter_simps json_member_def
          simp del: ser_value.simps split: sum.splits option.splits)
qed

lemma map_filter_set:
  "(y \<in> set (List.map_filter f xs)) = (\<exists>x \<in> set xs. f x = Some y)"
  by (induction xs) (auto simp: List.map_filter_simps split: option.splits)

lemma kept_property_Some:
  "kept_property h error x = Some (k, v) \<longleftrightarrow>
     x = k \<and> get_property h error k = Inr v \<and> typeof h v \<noteq> TFunction \<and> typeof h v \<noteq> TSymbol"
  by (cases "get_property h error x") (auto simp: kept_property_def)

lemma json_member_Some:
  "json_member h kv = Some (k, j) \<longleftrightarrow> fst kv = k \<and> ser_value h [] (snd kv) = Inr (Some j)"
  by (auto simp: json_member_def simp del: ser_value.simps split: sum.splits option.splits)

text \<open>What the body of a synthesized response is, in terms of the steps of the handler.\<close>

lemma synthesized_body:
  assumes "catch_handler h error = Inr r"
    and "errorMessage h error = Inr msg"
    and "errorObject h error = Inr ro"
  shows "(\<forall>b. JSON_stringify h ro = Inr b \<longrightarrow> body r = Some b) \<and>
         (\<forall>e. JSON_stringify h ro = Inl e \<longrightarrow>
               (\<exists>b. JSON_stringify h [(js ''message'', msg)] = Inr b \<and> body r = Some b))"
  using assms
  by (auto simp: catch_handler_def serialize_body_def Response_new_def
        split: sum.splits if_splits)

text \<open>
  An own property named \<^verbatim>\<open>__proto__\<close> changes the prototype of the record, and the
  later assignments go through it: at the own names \<^verbatim>\<open>__proto__\<close>, \<^verbatim>\<open>foo\<close>,
  \<^verbatim>\<open>message\<close>, where the first is an object with a getter \<^verbatim>\<open>foo\<close> and no setter,
  the assignment of \<^verbatim>\<open>foo\<close> throws inside the \<^verbatim>\<open>try\<close> and the record holds
  \<^verbatim>\<open>message\<close> alone.
\<close>

lemma record_with_prototype:
  "errorObject error_with_prototype (VObj 0) = Inr [(js ''message'', VStr (js ''m''))]"
  by (simp add: errorObject_def error_with_prototype_def eval_fixture assign_property_def
        inherited_target_def)


lemma names_error_with_function:
  "getOwnPropertyNames error_with_function (VObj 0) =
     Inr [js ''stack'', js ''message'', js ''myFunction'', js ''normalProp'', js ''broken'']"
  by (simp add: error_with_function_def standard_error_def data_property_def hidden_property_def
        getter_property_def h_get_def)

lemma kept_error_with_function:
  "List.map_filter (kept_property error_with_function (VObj 0))
        [js ''stack'', js ''message'', js ''myFunction'', js ''normalProp'', js ''broken'']
   = [(js ''stack'', VStr (js ''Error: '' @ js ''Error with function'' @ [10] @ js ''    at mockFetch'')),
      (js ''message'', VStr (js ''Error with function'')),
      (js ''normalProp'', VStr (js ''value''))]"
  by (simp add: List.map_filter_simps kept_property_def error_with_function_def standard_error_def
        data_property_def hidden_property_def getter_property_def h_get_def js_eq_iff
        function_object_def)

lemma serialize_error_with_function:
  "serialize_body h [(js ''stack'', VStr st), (js ''message'', VStr m), (js ''normalProp'', VStr v)] msg
     = Inr (json_text (JObject [(js ''stack'', JString st), (js ''message'', JString m),
                               (js ''normalProp'', JString v)]))"
  by (simp add: serialize_body_def JSON_stringify_def record_properties_def)

lemma phrase_error_with_function: "is_reason_phrase (js ''Error with function'')"
  by (simp add: is_reason_phrase_def reason_phrase_unit_def js_def)


lemma errorMessage_undefined:
  "errorMessage error_with_undefined (VObj 0) = Inr (VStr (js ''Error with function''))"
  by (simp add: errorMessage_def error_with_undefined_def eval_fixture js_def)

lemma errorObject_undefined:
  "errorObject error_with_undefined (VObj 0) =
     Inr [(js ''message'', VStr (js ''Error with function'')), (js ''detail'', VUndefined)]"
  by (simp add: errorObject_def error_with_undefined_def eval_fixture assign_property_def
        inherited_target_def)

lemma serialize_undefined:
  "serialize_body h [(js ''message'', VStr s), (js ''detail'', VUndefined)] msg =
     Inr (json_text (JObject [(js ''message'', JString s)]))"
  by (simp add: serialize_body_def JSON_stringify_def record_properties_def)


subsection \<open>Failures of the handler itself\<close>

lemma ERROR_STATUS_value: "ERROR_STATUS = 10001"
  by (simp add: ERROR_STATUS_def)

lemma synthesized_status:
  "synthesized (outcome (createSafeFetch h fetch url init)) = Some r \<Longrightarrow> status r = 10001"
  by (auto simp: createSafeFetch_def ERROR_STATUS_def dest: catch_handler_status
        split: call_result.splits settlement.splits sum.splits)

text \<open>
  C1 at failing inputs. The transport rejects with the string
  \<^verbatim>\<open>first line\<close>, a line feed, \<^verbatim>\<open>second line\<close>. The handler passes it as
  \<^verbatim>\<open>statusText\<close>; a line feed is not allowed in a reason phrase, the \<^verbatim>\<open>Response\<close>
  constructor throws a \<^verbatim>\<open>TypeError\<close> inside the handler, and the wrapped call rejects
  instead of resolving to a response with status 10001. So it does when the transport
  rejects with the plain object \<^verbatim>\<open>{message: 10n}\<close>, on which both calls of
  \<^verbatim>\<open>JSON.stringify\<close> throw.
\<close>

theorem multiline_string_rejects:
  "outcome (createSafeFetch [] (rejecting (VStr (js ''first line'' @ [10] @ js ''second line'')))
              example_url VUndefined) = Rejected TypeError \<and>
   synthesized (outcome (createSafeFetch []
       (rejecting (VStr (js ''first line'' @ [10] @ js ''second line''))) example_url VUndefined)) = None \<and>
   outcome (createSafeFetch bigint_message (rejecting (VObj 0)) example_url VUndefined)
     = Rejected TypeError"
proof -
  have "\<not> is_reason_phrase (js ''first line'' @ [10] @ js ''second line'')"
    by (simp add: is_reason_phrase_def reason_phrase_unit_def)
  then have string: "catch_handler [] (VStr (js ''first line'' @ [10] @ js ''second line'')) = Inl TypeError"
    by (simp add: catch_handler_string)
  have m: "errorMessage bigint_message (VObj 0) = Inr (VBigInt 10)"
    by (simp add: errorMessage_def bigint_message_def eval_fixture)
  have ro: "errorObject bigint_message (VObj 0) = Inr [(js ''message'', VBigInt 10)]"
    by (simp add: errorObject_def bigint_message_def eval_fixture assign_property_def
        inherited_target_def)
  have b: "serialize_body bigint_message [(js ''message'', VBigInt 10)] (VBigInt 10) = Inl TypeError"
    by (simp add: serialize_body_def JSON_stringify_def record_properties_def)
  have "catch_handler bigint_message (VObj 0) = Inl TypeError"
    by (simp add: catch_handler_def m ro b)
  with string show ?thesis
    by (simp add: rejecting_outcome)
qed

text \<open>
  When the first serialization throws and a response is made all the same, its body is
  the serialization of the fallback object.
\<close>

lemma fallback_body:
  assumes "catch_handler h error = Inr r"
    and "errorMessage h error = Inr msg"
    and "errorObject h error = Inr ro"
    and "JSON_stringify h ro = Inl e"
  shows "\<exists>b. JSON_stringify h [(js ''message'', msg)] = Inr b \<and> body r = Some b"
  using assms
  by (auto simp: catch_handler_def serialize_body_def Response_new_def
        split: sum.splits if_splits)

lemma stringify_cyclic: "JSON_stringify cyclic_message [(js ''message'', VObj 0)] = Inl TypeError"
  by (simp add: JSON_stringify_def record_properties_def cyclic_message_def eval_fixture)

text \<open>
  C6 at a failing input. The thrown object is \<^verbatim>\<open>err\<close> with \<^verbatim>\<open>err.message = err\<close>.
  The summary is the object itself, serializing the full record fails on the cycle, and
  the fallback \<^verbatim>\<open>JSON.stringify({ message: errorMessage })\<close>, which is outside any
  \<^verbatim>\<open>try\<close>, meets the same cycle: the exception reaches the caller as a rejection and
  there is no body.
\<close>

theorem cyclic_message_rejects:
  "errorMessage cyclic_message (VObj 0) = Inr (VObj 0) \<and>
   errorObject cyclic_message (VObj 0) = Inr [(js ''message'', VObj 0)] \<and>
   JSON_stringify cyclic_message [(js ''message'', VObj 0)] = Inl TypeError \<and>
   serialize_body cyclic_message [(js ''message'', VObj 0)] (VObj 0) = Inl TypeError \<and>
   outcome (createSafeFetch cyclic_message (rejecting (VObj 0)) example_url VUndefined)
     = Rejected TypeError"
proof -
  have m: "errorMessage cyclic_message (VObj 0) = Inr (VObj 0)"
    by (simp add: errorMessage_def cyclic_message_def eval_fixture)
  have ro: "errorObject cyclic_message (VObj 0) = Inr [(js ''message'', VObj 0)]"
    by (simp add: errorObject_def cyclic_message_def eval_fixture assign_property_def
        inherited_target_def)
  have b: "serialize_body cyclic_message [(js ''message'', VObj 0)] (VObj 0) = Inl TypeError"
    by (simp add: serialize_body_def stringify_cyclic)
  have "catch_handler cyclic_message (VObj 0) = Inl TypeError"
    by (simp add: catch_handler_def m ro b)
  then show ?thesis
    using m ro b stringify_cyclic by (simp add: rejecting_outcome)
qed

text \<open>
  C7 at failing inputs. Rejections with \<^verbatim>\<open>null\<close> and with \<^verbatim>\<open>undefined\<close>: reading
  \<^verbatim>\<open>error.message\<close> throws a \<^verbatim>\<open>TypeError\<close> before any \<^verbatim>\<open>try\<close>, and the wrapped
  call rejects. The same unguarded read lets a throwing \<^verbatim>\<open>message\<close> getter through.
  And the minimal fallback does not always succeed: with the bigint \<^verbatim>\<open>10n\<close> as
  message both serializations throw.
\<close>

theorem null_failure_rejects:
  "outcome (createSafeFetch [] (rejecting VNull) example_url VUndefined) = Rejected TypeError \<and>
   outcome (createSafeFetch [] (rejecting VUndefined) example_url VUndefined) = Rejected TypeError \<and>
   outcome (createSafeFetch hostile_message (rejecting (VObj 0)) example_url VUndefined)
     = Rejected (Thrown (VStr (js ''hostile''))) \<and>
   serialize_body [] [(js ''message'', VBigInt 10)] (VBigInt 10) = Inl TypeError"
proof -
  have "errorMessage hostile_message (VObj 0) = Inl (Thrown (VStr (js ''hostile'')))"
    by (simp add: errorMessage_def hostile_message_def eval_fixture)
  then have "catch_handler hostile_message (VObj 0) = Inl (Thrown (VStr (js ''hostile'')))"
    by (simp add: catch_handler_def)
  moreover have "catch_handler [] VNull = Inl TypeError"
    by (simp add: catch_handler_def errorMessage_def)
  moreover have "catch_handler [] VUndefined = Inl TypeError"
    by (simp add: catch_handler_def errorMessage_def)
  moreover have "serialize_body [] [(js ''message'', VBigInt 10)] (VBigInt 10) = Inl TypeError"
    by (simp add: serialize_body_def JSON_stringify_def record_properties_def)
  ultimately show ?thesis
    by (simp add: rejecting_outcome)
qed


end
